theory Spec2Isabelle
  imports Main "HOL-Library.Word"
begin

section \<open>The PredictionMarket contract\<close>

text \<open>
  The ledger contract of the repository is the Solidity contract \<open>PredictionMarket\<close>
  (pragma \<open>^0.8.25\<close>), as printed in \<open>src/unnamed/part_000\<close>, lines 182 to 314.
  Solidity 0.8 checks \<open>+\<close>, \<open>*\<close> and \<open>++\<close> on \<open>uint256\<close> and reverts with a panic on
  overflow; a failed \<open>require\<close>, a failed modifier, a panic and a failed \<open>transfer\<close> all
  revert the whole call, so that no storage write, no event and no payment of the call
  survives. The model returns \<open>Inl\<close> of the error in these cases and \<open>Inr\<close> of a receipt
  (return value, storage after the call, events, payments) otherwise.
\<close>

subsection \<open>Data\<close>

type_synonym uint256 = "256 word"
type_synonym uint32 = "32 word"
type_synonym address = "160 word"

text \<open>\<open>struct Market\<close>, \<open>part_000\<close> lines 190 to 198.\<close>

record Market =
  question :: string
  endTime :: uint256
  totalYesBets :: uint256
  totalNoBets :: uint256
  resolved :: bool
  outcome :: bool
  creator :: address

text \<open>
  The encrypted types \<open>euint32\<close> and \<open>ebool\<close> are handles to ciphertexts. The model keeps
  the plaintext that \<open>FHE.asEuint32\<close> and \<open>FHE.asEbool\<close> were given inside the handle; a
  storage slot that was never written holds the null handle.
\<close>

datatype euint32 = Euint32_null | Euint32 uint32
datatype ebool = Ebool_null | Ebool bool

text \<open>\<open>struct Bet\<close>, \<open>part_000\<close> lines 201 to 206.\<close>

record Bet =
  encryptedAmount :: euint32
  encryptedPrediction :: ebool
  claimed :: bool
  bettor :: address

text \<open>
  The storage of the contract: the two public mappings (lines 209 and 210), the counter
  that \<open>createMarket\<close> increments, and the balance of the contract's account in wei. A
  Solidity mapping is total: a key that was never written reads as the zero value.
\<close>

record contract =
  markets :: "uint256 \<Rightarrow> Market"
  bets :: "uint256 \<Rightarrow> address \<Rightarrow> Bet"
  marketCounter :: uint256
  balance :: nat

definition zero_Market :: Market where
  "zero_Market = \<lparr>question = [], endTime = 0, totalYesBets = 0, totalNoBets = 0,
     resolved = False, outcome = False, creator = 0\<rparr>"

definition zero_Bet :: Bet where
  "zero_Bet = \<lparr>encryptedAmount = Euint32_null, encryptedPrediction = Ebool_null,
     claimed = False, bettor = 0\<rparr>"

definition deployed :: contract where
  "deployed = \<lparr>markets = (\<lambda>_. zero_Market), bets = (\<lambda>_ _. zero_Bet),
     marketCounter = 0, balance = 0\<rparr>"

text \<open>
  What a call sees of its transaction: \<open>msg.sender\<close>, \<open>block.timestamp\<close>, and whether the
  sender's account accepts a plain \<open>transfer\<close> (an externally owned account always does;
  a contract whose receive function reverts or needs more than the stipend does not).
  Only \<open>placeBet\<close> is payable, so only \<open>placeBet\<close> takes \<open>msg.value\<close>, as an argument.
\<close>

record env =
  msg_sender :: address
  block_timestamp :: uint256
  sender_accepts :: bool

datatype event =
    MarketCreated uint256 string uint256 address
  | BetPlaced uint256 address uint256
  | MarketResolved uint256 bool
  | WinningsClaimed uint256 address uint256

text \<open>
  The ways a call reverts. A modifier that fails reverts with its own message, which is
  not in the excerpt, so the error names the modifier; a \<open>require\<close> of the excerpt
  reverts with its message; checked arithmetic panics; \<open>transfer\<close> reverts when the
  contract's balance is too small or the receiver refuses. In the words of the spec the
  failure of \<open>onlyCreator\<close> is the authorization error of \<open>resolveMarket\<close>; the failure of
  \<open>marketEnded\<close> and \<open>Market already resolved\<close> are its precondition errors; and the
  failures of \<open>marketExists\<close> and \<open>marketActive\<close>, \<open>Invalid bet amount\<close> and \<open>Already
  placed bet\<close> are the validation errors of \<open>placeBet\<close>.
\<close>

datatype modifier = MarketExists | MarketActive | MarketEnded | OnlyCreator

datatype error =
    Modifier modifier
  | Require string
  | Panic
  | TransferFailed

record 'a receipt =
  returned :: 'a
  storage :: contract
  events :: "event list"
  transfers :: "(address \<times> uint256) list"

subsection \<open>Constants and modifiers declared outside the printed excerpt\<close>

text \<open>
  Modelled from the spec: the constants \<open>MIN_BET\<close> and \<open>MAX_BET\<close> are used by \<open>placeBet\<close>
  and \<open>claimWinnings\<close> but their declarations are not in the excerpt. The spec calls them
  the fixed minimum and maximum bound of a stake; the values are the ones the client
  adapter checks before it submits (\<open>parseEther('0.001')\<close> and \<open>parseEther('10')\<close>,
  \<open>src/src/utils/web3.ts\<close> lines 124 to 125), in wei.
\<close>

definition MIN_BET :: uint256 where
  "MIN_BET = 1000000000000000"

definition MAX_BET :: uint256 where
  "MAX_BET = 10000000000000000000"

text \<open>
  Modelled from the spec: the modifier \<open>marketExists\<close> is applied by \<open>placeBet\<close>,
  \<open>resolveMarket\<close> and \<open>claimWinnings\<close>, its body is not in the excerpt. Market
  identifiers are sequential integers handed out by \<open>createMarket\<close> from the counter, and
  a call on an unknown market fails: a market exists when its identifier is below the
  counter.
\<close>

definition marketExists :: "contract \<Rightarrow> uint256 \<Rightarrow> bool" where
  "marketExists s marketId = (marketId < marketCounter s)"

text \<open>
  Modelled from the spec: the modifier \<open>marketActive\<close> of \<open>placeBet\<close>, body not in the
  excerpt. \<open>placeBet\<close> is allowed only while the market is Open, and Open is: before the
  end time and unresolved.
\<close>

definition marketActive :: "contract \<Rightarrow> env \<Rightarrow> uint256 \<Rightarrow> bool" where
  "marketActive s e marketId =
     (block_timestamp e < endTime (markets s marketId) \<and> \<not> resolved (markets s marketId))"

text \<open>
  Modelled from the spec: the modifier \<open>marketEnded\<close> of \<open>resolveMarket\<close>, body not in the
  excerpt. \<open>resolveMarket\<close> is allowed only once the market has reached Ended, and fails
  if called before the end time; every entry point tells Open from Ended by comparing
  the current time to the end time.
\<close>

definition marketEnded :: "contract \<Rightarrow> env \<Rightarrow> uint256 \<Rightarrow> bool" where
  "marketEnded s e marketId = (endTime (markets s marketId) \<le> block_timestamp e)"

text \<open>
  Modelled from the spec: the modifier \<open>onlyCreator\<close> of \<open>resolveMarket\<close>, body not in
  the excerpt. \<open>resolveMarket\<close> is allowed only by the creator of the market.
\<close>

definition onlyCreator :: "contract \<Rightarrow> env \<Rightarrow> uint256 \<Rightarrow> bool" where
  "onlyCreator s e marketId = (msg_sender e = creator (markets s marketId))"

subsection \<open>Checked arithmetic\<close>

definition checked_add :: "uint256 \<Rightarrow> uint256 \<Rightarrow> error + uint256" where
  "checked_add a b = (if unat a + unat b < 2 ^ 256 then Inr (a + b) else Inl Panic)"

definition checked_mul :: "uint256 \<Rightarrow> uint256 \<Rightarrow> error + uint256" where
  "checked_mul a b = (if unat a * unat b < 2 ^ 256 then Inr (a * b) else Inl Panic)"

subsection \<open>The four entry points\<close>

text \<open>\<open>createMarket\<close>, \<open>part_000\<close> lines 218 to 234.\<close>

definition createMarket :: "contract \<Rightarrow> env \<Rightarrow> string \<Rightarrow> uint256 \<Rightarrow> error + uint256 receipt" where
  "createMarket s e a_question a_duration =
     (case checked_add (marketCounter s) 1 of
        Inl err \<Rightarrow> Inl err
      | Inr next_id \<Rightarrow>
          let marketId = marketCounter s in
          (case checked_add (block_timestamp e) a_duration of
             Inl err \<Rightarrow> Inl err
           | Inr end_time \<Rightarrow>
               Inr \<lparr>returned = marketId,
                    storage = s\<lparr>marketCounter := next_id,
                      markets := (markets s)(marketId :=
                        \<lparr>question = a_question,
                         endTime = end_time,
                         totalYesBets = 0,
                         totalNoBets = 0,
                         resolved = False,
                         outcome = False,
                         creator = msg_sender e\<rparr>)\<rparr>,
                    events = [MarketCreated marketId a_question end_time (msg_sender e)],
                    transfers = []\<rparr>))"

text \<open>
  \<open>placeBet\<close>, \<open>part_000\<close> lines 239 to 267; \<open>msg_value\<close> is \<open>msg.value\<close>, which the
  contract's account receives when the call succeeds. The conversion \<open>uint32(...)\<close> keeps
  the low 32 bits. The four \<open>FHE.allow\<close> calls change the access list kept by the
  encryption library, not the storage of this contract.
\<close>

definition placeBet :: "contract \<Rightarrow> env \<Rightarrow> uint256 \<Rightarrow> uint256 \<Rightarrow> bool \<Rightarrow> error + unit receipt" where
  "placeBet s e msg_value marketId a_prediction =
     (if \<not> marketExists s marketId then Inl (Modifier MarketExists)
      else if \<not> marketActive s e marketId then Inl (Modifier MarketActive)
      else if \<not> (MIN_BET \<le> msg_value \<and> msg_value \<le> MAX_BET)
        then Inl (Require ''Invalid bet amount'')
      else if bettor (bets s marketId (msg_sender e)) \<noteq> 0
        then Inl (Require ''Already placed bet'')
      else
        let betAmountUnits = (ucast (msg_value div 1000000000000000) :: uint32);
            encryptedAmount = Euint32 betAmountUnits;
            encryptedPrediction = Ebool a_prediction
        in Inr \<lparr>returned = (),
                storage = s\<lparr>balance := balance s + unat msg_value,
                  bets := (bets s)(marketId := (bets s marketId)(msg_sender e :=
                    \<lparr>encryptedAmount = encryptedAmount,
                     encryptedPrediction = encryptedPrediction,
                     claimed = False,
                     bettor = msg_sender e\<rparr>))\<rparr>,
                events = [BetPlaced marketId (msg_sender e) msg_value],
                transfers = []\<rparr>)"

text \<open>\<open>resolveMarket\<close>, \<open>part_000\<close> lines 272 to 284.\<close>

definition resolveMarket :: "contract \<Rightarrow> env \<Rightarrow> uint256 \<Rightarrow> bool \<Rightarrow> error + unit receipt" where
  "resolveMarket s e marketId an_outcome =
     (if \<not> marketExists s marketId then Inl (Modifier MarketExists)
      else if \<not> marketEnded s e marketId then Inl (Modifier MarketEnded)
      else if \<not> onlyCreator s e marketId then Inl (Modifier OnlyCreator)
      else if resolved (markets s marketId) then Inl (Require ''Market already resolved'')
      else Inr \<lparr>returned = (),
                storage = s\<lparr>markets := (markets s)(marketId :=
                  (markets s marketId)\<lparr>resolved := True, outcome := an_outcome\<rparr>)\<rparr>,
                events = [MarketResolved marketId an_outcome],
                transfers = []\<rparr>)"

text \<open>
  The two pools that \<open>claimWinnings\<close> reads from the market record (lines 302 and 303):
  the aggregate total on the side of the outcome, and the aggregate total on the other
  side.
\<close>

definition totalWinningPool :: "Market \<Rightarrow> uint256" where
  "totalWinningPool market = (if outcome market then totalYesBets market else totalNoBets market)"

definition totalLosingPool :: "Market \<Rightarrow> uint256" where
  "totalLosingPool market = (if outcome market then totalNoBets market else totalYesBets market)"

text \<open>
  \<open>claimWinnings\<close>, \<open>part_000\<close> lines 289 to 313. The flag is written before the payout is
  computed; a panic or a failed transfer after it reverts that write with the call.
\<close>

definition claimWinnings :: "contract \<Rightarrow> env \<Rightarrow> uint256 \<Rightarrow> error + unit receipt" where
  "claimWinnings s e marketId =
     (if \<not> marketExists s marketId then Inl (Modifier MarketExists)
      else if \<not> resolved (markets s marketId) then Inl (Require ''Market not resolved yet'')
      else if bettor (bets s marketId (msg_sender e)) \<noteq> msg_sender e
        then Inl (Require ''No bet found'')
      else if claimed (bets s marketId (msg_sender e)) then Inl (Require ''Already claimed'')
      else
        let s1 = s\<lparr>bets := (bets s)(marketId := (bets s marketId)(msg_sender e :=
                   (bets s marketId (msg_sender e))\<lparr>claimed := True\<rparr>))\<rparr>;
            market = markets s1 marketId
        in
          if 0 < totalWinningPool market \<and> 0 < totalLosingPool market then
            let betAmount = MIN_BET in
            (case checked_mul betAmount (totalLosingPool market) of
               Inl err \<Rightarrow> Inl err
             | Inr product \<Rightarrow>
                 (case checked_add betAmount (product div totalWinningPool market) of
                    Inl err \<Rightarrow> Inl err
                  | Inr winnings \<Rightarrow>
                      if balance s1 < unat winnings \<or> \<not> sender_accepts e then Inl TransferFailed
                      else Inr \<lparr>returned = (),
                                storage = s1\<lparr>balance := balance s1 - unat winnings\<rparr>,
                                events = [WinningsClaimed marketId (msg_sender e) winnings],
                                transfers = [(msg_sender e, winnings)]\<rparr>))
          else Inr \<lparr>returned = (), storage = s1, events = [], transfers = []\<rparr>)"

subsection \<open>The read-only query\<close>

text \<open>
  Modelled from the spec: \<open>getMarket\<close> is declared in the client's interface list
  (\<open>src/src/utils/web3.ts\<close> line 16) as a view returning question, end time, the two
  totals, resolved, outcome and creator; its body is not in the excerpt. It is read-only
  and returns the current state of the market record, as the getter of the public
  mapping \<open>markets\<close> does.
\<close>

definition getMarket ::
  "contract \<Rightarrow> uint256 \<Rightarrow> string \<times> uint256 \<times> uint256 \<times> uint256 \<times> bool \<times> bool \<times> address" where
  "getMarket s marketId =
     (let m = markets s marketId
      in (question m, endTime m, totalYesBets m, totalNoBets m, resolved m, outcome m, creator m))"

subsection \<open>Sequences of transactions\<close>

text \<open>
  The chain finalises one call at a time. A call that reverts leaves the storage as it
  was; a call that succeeds leaves the storage of its receipt.
\<close>

datatype call =
    CreateMarket string uint256
  | PlaceBet uint256 uint256 bool
  | ResolveMarket uint256 bool
  | ClaimWinnings uint256

definition settle :: "contract \<Rightarrow> error + 'a receipt \<Rightarrow> contract" where
  "settle s r = (case r of Inl err \<Rightarrow> s | Inr rc \<Rightarrow> storage rc)"

fun transact :: "contract \<Rightarrow> env \<times> call \<Rightarrow> contract" where
  "transact s (e, CreateMarket a_question a_duration) = settle s (createMarket s e a_question a_duration)"
| "transact s (e, PlaceBet msg_value marketId a_prediction) =
     settle s (placeBet s e msg_value marketId a_prediction)"
| "transact s (e, ResolveMarket marketId an_outcome) = settle s (resolveMarket s e marketId an_outcome)"
| "transact s (e, ClaimWinnings marketId) = settle s (claimWinnings s e marketId)"

definition run :: "contract \<Rightarrow> (env \<times> call) list \<Rightarrow> contract" where
  "run s txs = foldl transact s txs"

subsection \<open>A run of the contract\<close>

text \<open>
  The scenario of the spec, used to evaluate the theorems below on concrete calls: alice
  creates a market lasting one day at time 1000; bob stakes 0.01 ether on yes and carol
  0.02 ether on no; after the end time alice resolves the market to yes; bob claims.
  \<open>st_funded\<close> is the resolved market with both aggregate totals positive.
\<close>

definition alice :: address where "alice = 101"
definition bob :: address where "bob = 102"
definition carol :: address where "carol = 103"

definition caller :: "address \<Rightarrow> uint256 \<Rightarrow> env" where
  "caller a t = \<lparr>msg_sender = a, block_timestamp = t, sender_accepts = True\<rparr>"

definition rain :: Market where
  "rain = \<lparr>question = ''Will it rain?'', endTime = 87400, totalYesBets = 0, totalNoBets = 0,
     resolved = False, outcome = False, creator = alice\<rparr>"

definition bob_bet :: Bet where
  "bob_bet = \<lparr>encryptedAmount = Euint32 10, encryptedPrediction = Ebool True, claimed = False, bettor = bob\<rparr>"

definition carol_bet :: Bet where
  "carol_bet = \<lparr>encryptedAmount = Euint32 20, encryptedPrediction = Ebool False, claimed = False, bettor = carol\<rparr>"

definition st_created :: contract where
  "st_created = \<lparr>markets = (\<lambda>_. zero_Market)(0 := rain), bets = (\<lambda>_ _. zero_Bet),
     marketCounter = 1, balance = 0\<rparr>"

definition st_bob :: contract where
  "st_bob = \<lparr>markets = (\<lambda>_. zero_Market)(0 := rain),
     bets = (\<lambda>_ _. zero_Bet)(0 := (\<lambda>_. zero_Bet)(bob := bob_bet)),
     marketCounter = 1, balance = 10000000000000000\<rparr>"

definition st_carol :: contract where
  "st_carol = \<lparr>markets = (\<lambda>_. zero_Market)(0 := rain),
     bets = (\<lambda>_ _. zero_Bet)(0 := (\<lambda>_. zero_Bet)(bob := bob_bet, carol := carol_bet)),
     marketCounter = 1, balance = 30000000000000000\<rparr>"

definition st_resolved :: contract where
  "st_resolved = \<lparr>markets = (\<lambda>_. zero_Market)(0 := rain\<lparr>resolved := True, outcome := True\<rparr>),
     bets = (\<lambda>_ _. zero_Bet)(0 := (\<lambda>_. zero_Bet)(bob := bob_bet, carol := carol_bet)),
     marketCounter = 1, balance = 30000000000000000\<rparr>"

definition st_claimed :: contract where
  "st_claimed = \<lparr>markets = (\<lambda>_. zero_Market)(0 := rain\<lparr>resolved := True, outcome := True\<rparr>),
     bets = (\<lambda>_ _. zero_Bet)(0 := (\<lambda>_. zero_Bet)(bob := bob_bet\<lparr>claimed := True\<rparr>, carol := carol_bet)),
     marketCounter = 1, balance = 30000000000000000\<rparr>"

definition st_funded :: contract where
  "st_funded = \<lparr>markets = (\<lambda>_. zero_Market)(0 := rain\<lparr>totalYesBets := 10000000000000000,
       totalNoBets := 20000000000000000, resolved := True, outcome := True\<rparr>),
     bets = (\<lambda>_ _. zero_Bet)(0 := (\<lambda>_. zero_Bet)(bob := bob_bet, carol := carol_bet)),
     marketCounter = 1, balance = 30000000000000000\<rparr>"

text \<open>
  An invariant of every storage reached from deployment: a market whose \<open>resolved\<close>
  flag is set has an identifier below the counter, so \<open>createMarket\<close> never writes
  over it.
\<close>

definition resolved_known :: "contract \<Rightarrow> bool" where
  "resolved_known s = (\<forall>m. resolved (markets s m) \<longrightarrow> m < marketCounter s)"

text \<open>The receipts of the two claims on \<open>st_funded\<close>.\<close>

definition rc_funded_bob :: "unit receipt" where
  "rc_funded_bob =
     \<lparr>returned = (),
      storage = st_funded\<lparr>bets := (\<lambda>_ _. zero_Bet)(0 := (\<lambda>_. zero_Bet)(bob := bob_bet\<lparr>claimed := True\<rparr>, carol := carol_bet)),
        balance := 27000000000000000\<rparr>,
      events = [WinningsClaimed 0 bob 3000000000000000],
      transfers = [(bob, 3000000000000000)]\<rparr>"

definition rc_funded_carol :: "unit receipt" where
  "rc_funded_carol =
     \<lparr>returned = (),
      storage = st_funded\<lparr>bets := (\<lambda>_ _. zero_Bet)(0 := (\<lambda>_. zero_Bet)(bob := bob_bet, carol := carol_bet\<lparr>claimed := True\<rparr>)),
        balance := 27000000000000000\<rparr>,
      events = [WinningsClaimed 0 carol 3000000000000000],
      transfers = [(carol, 3000000000000000)]\<rparr>"

text \<open>
  \<open>st_funded_no\<close> is the same market resolved to no, and the receipt of carol's claim on
  it.
\<close>

definition st_funded_no :: contract where
  "st_funded_no = \<lparr>markets = (\<lambda>_. zero_Market)(0 := rain\<lparr>totalYesBets := 10000000000000000,
       totalNoBets := 20000000000000000, resolved := True, outcome := False\<rparr>),
     bets = (\<lambda>_ _. zero_Bet)(0 := (\<lambda>_. zero_Bet)(bob := bob_bet, carol := carol_bet)),
     marketCounter = 1, balance = 30000000000000000\<rparr>"

definition rc_funded_no_carol :: "unit receipt" where
  "rc_funded_no_carol =
     \<lparr>returned = (),
      storage = st_funded_no\<lparr>bets := (\<lambda>_ _. zero_Bet)(0 := (\<lambda>_. zero_Bet)(bob := bob_bet, carol := carol_bet\<lparr>claimed := True\<rparr>)),
        balance := 28500000000000000\<rparr>,
      events = [WinningsClaimed 0 carol 1500000000000000],
      transfers = [(carol, 1500000000000000)]\<rparr>"

text \<open>
  A second invariant of every storage reached from deployment: both aggregate totals of
  every market are zero.
\<close>

definition totals_zero :: "contract \<Rightarrow> bool" where
  "totals_zero s = (\<forall>m. totalYesBets (markets s m) = 0 \<and> totalNoBets (markets s m) = 0)"

section \<open>Properties of single calls\<close>

lemma checked_add_Inr: "checked_add a b = Inr c \<Longrightarrow> c = a + b \<and> unat c = unat a + unat b"
  by (auto simp: checked_add_def unat_word_ariths split: if_splits)

lemma checked_add_one_less: "checked_add a 1 = Inr c \<Longrightarrow> a < c"
  apply (auto simp: checked_add_def split: if_splits)
  apply (simp add: word_less_nat_alt unat_word_ariths)
  done

lemma checked_mul_Inr: "checked_mul a b = Inr c \<Longrightarrow> c = a * b \<and> unat c = unat a * unat b"
  by (auto simp: checked_mul_def unat_word_ariths split: if_splits)

lemma createMarket_Inr:
  "createMarket s e q d = Inr rc \<Longrightarrow>
     returned rc = marketCounter s \<and>
     marketCounter s < marketCounter (storage rc) \<and>
     bets (storage rc) = bets s \<and>
     balance (storage rc) = balance s \<and>
     (\<exists>mk. markets (storage rc) = (markets s)(marketCounter s := mk) \<and> \<not> resolved mk \<and>
        totalYesBets mk = 0 \<and> totalNoBets mk = 0)"
  by (auto simp: createMarket_def Let_def split: sum.splits dest: checked_add_one_less)

lemma placeBet_Inr:
  "placeBet s e v m p = Inr rc \<Longrightarrow>
     marketExists s m \<and> marketActive s e m \<and> MIN_BET \<le> v \<and> v \<le> MAX_BET \<and>
     bettor (bets s m (msg_sender e)) = 0 \<and>
     markets (storage rc) = markets s \<and>
     marketCounter (storage rc) = marketCounter s \<and>
     (\<exists>b. bets (storage rc) = (bets s)(m := (bets s m)(msg_sender e := b)) \<and> bettor b = msg_sender e \<and> \<not> claimed b)"
  by (auto simp: placeBet_def Let_def split: if_splits)

lemma resolveMarket_Inr:
  "resolveMarket s e m out = Inr rc \<Longrightarrow>
     marketExists s m \<and> marketEnded s e m \<and> onlyCreator s e m \<and> \<not> resolved (markets s m) \<and>
     storage rc = s\<lparr>markets := (markets s)(m := (markets s m)\<lparr>resolved := True, outcome := out\<rparr>)\<rparr>"
  by (auto simp: resolveMarket_def split: if_splits)

lemma claimWinnings_Inr:
  "claimWinnings s e m = Inr rc \<Longrightarrow>
     marketExists s m \<and> resolved (markets s m) \<and> bettor (bets s m (msg_sender e)) = msg_sender e \<and>
     \<not> claimed (bets s m (msg_sender e)) \<and>
     markets (storage rc) = markets s \<and>
     marketCounter (storage rc) = marketCounter s \<and>
     bets (storage rc) = (bets s)(m := (bets s m)(msg_sender e := (bets s m (msg_sender e))\<lparr>claimed := True\<rparr>))"
  by (auto simp: claimWinnings_def Let_def split: if_splits sum.splits)

text \<open>What a successful \<open>claimWinnings\<close> pays, with and without positive pools.\<close>

lemma claimWinnings_paid:
  assumes "claimWinnings s e marketId = Inr rc"
    and "0 < totalWinningPool (markets s marketId)"
    and "0 < totalLosingPool (markets s marketId)"
  shows "\<exists>winnings.
           transfers rc = [(msg_sender e, winnings)] \<and>
           events rc = [WinningsClaimed marketId (msg_sender e) winnings] \<and>
           unat winnings = unat MIN_BET +
             (unat MIN_BET * unat (totalLosingPool (markets s marketId))) div
               unat (totalWinningPool (markets s marketId)) \<and>
           balance (storage rc) + unat winnings = balance s"
  using assms
  by (auto simp: claimWinnings_def Let_def unat_div split: if_splits sum.splits
      dest!: checked_add_Inr checked_mul_Inr)

lemma claimWinnings_unpaid:
  assumes "claimWinnings s e marketId = Inr rc"
    and "\<not> (0 < totalWinningPool (markets s marketId) \<and> 0 < totalLosingPool (markets s marketId))"
  shows "transfers rc = [] \<and> events rc = []"
  using assms
  by (auto simp: claimWinnings_def Let_def split: if_splits)

lemma claimWinnings_amounts_agree:
  assumes "markets s1 marketId = markets s2 marketId"
    and "claimWinnings s1 e1 marketId = Inr rc1"
    and "claimWinnings s2 e2 marketId = Inr rc2"
  shows "map snd (transfers rc1) = map snd (transfers rc2)"
proof (cases "0 < totalWinningPool (markets s1 marketId) \<and> 0 < totalLosingPool (markets s1 marketId)")
  case True
  then have p1: "0 < totalWinningPool (markets s1 marketId)" "0 < totalLosingPool (markets s1 marketId)"
    by simp_all
  then have p2: "0 < totalWinningPool (markets s2 marketId)" "0 < totalLosingPool (markets s2 marketId)"
    using assms(1) by simp_all
  from claimWinnings_paid [OF assms(2) p1]
  obtain w1 where w1: "transfers rc1 = [(msg_sender e1, w1)]"
    "unat w1 = unat MIN_BET + (unat MIN_BET * unat (totalLosingPool (markets s1 marketId))) div
       unat (totalWinningPool (markets s1 marketId))"
    by blast
  from claimWinnings_paid [OF assms(3) p2]
  obtain w2 where w2: "transfers rc2 = [(msg_sender e2, w2)]"
    "unat w2 = unat MIN_BET + (unat MIN_BET * unat (totalLosingPool (markets s2 marketId))) div
       unat (totalWinningPool (markets s2 marketId))"
    by blast
  from w1(2) w2(2) assms(1) have "unat w1 = unat w2"
    by simp
  then have "w1 = w2"
    by (simp add: word_unat_eq_iff)
  with w1(1) w2(1) show ?thesis by simp
next
  case False
  then have "\<not> (0 < totalWinningPool (markets s2 marketId) \<and> 0 < totalLosingPool (markets s2 marketId))"
    using assms(1) by simp
  with claimWinnings_unpaid [OF assms(2) False] claimWinnings_unpaid [OF assms(3)]
  show ?thesis by simp
qed

lemma claimWinnings_blind:
  "map_sum id (\<lambda>rc. (transfers rc, events rc))
     (claimWinnings
        (s\<lparr>bets := (bets s)(marketId := (bets s marketId)(msg_sender e :=
           (bets s marketId (msg_sender e))\<lparr>encryptedAmount := stake, encryptedPrediction := side\<rparr>))\<rparr>)
        e marketId)
   = map_sum id (\<lambda>rc. (transfers rc, events rc)) (claimWinnings s e marketId)"
  by (simp add: claimWinnings_def Let_def marketExists_def split: sum.splits)

lemma placeBet_keeps_getMarket:
  "placeBet s e msg_value marketId a_prediction = Inr rc \<Longrightarrow> getMarket (storage rc) m = getMarket s m"
  by (simp add: getMarket_def placeBet_Inr)

lemma createMarket_fails_only_on_overflow:
  "(\<exists>err. createMarket s e a_question a_duration = Inl err) \<longleftrightarrow>
     \<not> (unat (marketCounter s) + 1 < 2 ^ 256 \<and> unat (block_timestamp e) + unat a_duration < 2 ^ 256)"
  by (simp add: createMarket_def checked_add_def Let_def)

section \<open>Properties of runs\<close>

lemma run_Nil: "run s [] = s"
  by (simp add: run_def)

lemma run_Cons: "run s (tx # txs) = run (transact s tx) txs"
  by (simp add: run_def)

lemma run_append: "run s (txs @ later) = run (run s txs) later"
  by (simp add: run_def)

lemma settle_Inl: "settle s (Inl err) = s"
  by (simp add: settle_def)

lemma settle_Inr: "settle s (Inr rc) = storage rc"
  by (simp add: settle_def)

lemma transact_cases:
  obtains (reverted) "transact s tx = s"
  | (created) e q d rc where "tx = (e, CreateMarket q d)" "createMarket s e q d = Inr rc" "transact s tx = storage rc"
  | (placed) e v m p rc where "tx = (e, PlaceBet v m p)" "placeBet s e v m p = Inr rc" "transact s tx = storage rc"
  | (resolved) e m out rc where "tx = (e, ResolveMarket m out)" "resolveMarket s e m out = Inr rc" "transact s tx = storage rc"
  | (claimed) e m rc where "tx = (e, ClaimWinnings m)" "claimWinnings s e m = Inr rc" "transact s tx = storage rc"
proof (cases tx)
  case (Pair e c)
  show ?thesis
  proof (cases c)
    case (CreateMarket q d)
    show ?thesis
    proof (cases "createMarket s e q d")
      case (Inl err)
      then show ?thesis using Pair CreateMarket reverted by (simp add: settle_Inl)
    next
      case (Inr rc)
      then show ?thesis using Pair CreateMarket created [of e q d rc] by (simp add: settle_Inr)
    qed
  next
    case (PlaceBet v m p)
    show ?thesis
    proof (cases "placeBet s e v m p")
      case (Inl err)
      then show ?thesis using Pair PlaceBet reverted by (simp add: settle_Inl)
    next
      case (Inr rc)
      then show ?thesis using Pair PlaceBet placed [of e v m p rc] by (simp add: settle_Inr)
    qed
  next
    case (ResolveMarket m out)
    show ?thesis
    proof (cases "resolveMarket s e m out")
      case (Inl err)
      then show ?thesis using Pair ResolveMarket reverted by (simp add: settle_Inl)
    next
      case (Inr rc)
      then show ?thesis using Pair ResolveMarket resolved [of e m out rc] by (simp add: settle_Inr)
    qed
  next
    case (ClaimWinnings m)
    show ?thesis
    proof (cases "claimWinnings s e m")
      case (Inl err)
      then show ?thesis using Pair ClaimWinnings reverted by (simp add: settle_Inl)
    next
      case (Inr rc)
      then show ?thesis using Pair ClaimWinnings claimed [of e m rc] by (simp add: settle_Inr)
    qed
  qed
qed

text \<open>
  What no call undoes: the counter does not decrease; a record that holds its own
  (non-zero) address as bettor keeps it, and keeps a \<open>claimed\<close> flag that is set; a
  market below the counter keeps a \<open>resolved\<close> flag that is set.
\<close>

lemma transact_counter_mono: "marketCounter s \<le> marketCounter (transact s tx)"
proof (cases rule: transact_cases [of s tx])
  case (created e q d rc)
  then show ?thesis using createMarket_Inr [of s e q d rc] by (simp add: less_imp_le)
next
  case (placed e v m p rc)
  then show ?thesis using placeBet_Inr [of s e v m p rc] by simp
next
  case (resolved e m out rc)
  then show ?thesis using resolveMarket_Inr [of s e m out rc] by simp
next
  case (claimed e m rc)
  then show ?thesis using claimWinnings_Inr [of s e m rc] by simp
qed simp

lemma run_counter_mono: "marketCounter s \<le> marketCounter (run s txs)"
proof (induction txs arbitrary: s)
  case Nil
  show ?case by (simp add: run_Nil)
next
  case (Cons tx txs)
  have "marketCounter s \<le> marketCounter (transact s tx)" by (rule transact_counter_mono)
  also have "\<dots> \<le> marketCounter (run (transact s tx) txs)" by (rule Cons.IH)
  finally show ?case by (simp add: run_Cons)
qed

lemma transact_bettor:
  assumes "a \<noteq> 0" "bettor (bets s m a) = a"
  shows "bettor (bets (transact s tx) m a) = a"
proof (cases rule: transact_cases [of s tx])
  case (created e q d rc)
  then show ?thesis using assms createMarket_Inr [of s e q d rc] by simp
next
  case (placed e v m' p rc)
  then show ?thesis using assms placeBet_Inr [of s e v m' p rc] by auto
next
  case (resolved e m' out rc)
  then show ?thesis using assms resolveMarket_Inr [of s e m' out rc] by simp
next
  case (claimed e m' rc)
  then show ?thesis using assms claimWinnings_Inr [of s e m' rc] by auto
qed (simp add: assms)

lemma transact_claimed:
  assumes "a \<noteq> 0" "bettor (bets s m a) = a" "claimed (bets s m a)"
  shows "claimed (bets (transact s tx) m a)"
proof (cases rule: transact_cases [of s tx])
  case (created e q d rc)
  then show ?thesis using assms createMarket_Inr [of s e q d rc] by simp
next
  case (placed e v m' p rc)
  then show ?thesis using assms placeBet_Inr [of s e v m' p rc] by auto
next
  case (resolved e m' out rc)
  then show ?thesis using assms resolveMarket_Inr [of s e m' out rc] by simp
next
  case (claimed e m' rc)
  then show ?thesis using assms claimWinnings_Inr [of s e m' rc] by auto
qed (simp add: assms)

lemma run_bettor:
  "a \<noteq> 0 \<Longrightarrow> bettor (bets s m a) = a \<Longrightarrow> bettor (bets (run s txs) m a) = a"
  by (induction txs arbitrary: s) (simp_all add: run_Nil run_Cons transact_bettor)

lemma run_claimed:
  "a \<noteq> 0 \<Longrightarrow> bettor (bets s m a) = a \<Longrightarrow> claimed (bets s m a) \<Longrightarrow> claimed (bets (run s txs) m a)"
  by (induction txs arbitrary: s) (simp_all add: run_Nil run_Cons transact_bettor transact_claimed)

lemma transact_resolved:
  assumes "m < marketCounter s" "resolved (markets s m)"
  shows "resolved (markets (transact s tx) m)"
proof (cases rule: transact_cases [of s tx])
  case (created e q d rc)
  then show ?thesis using assms createMarket_Inr [of s e q d rc] by auto
next
  case (placed e v m' p rc)
  then show ?thesis using assms placeBet_Inr [of s e v m' p rc] by simp
next
  case (resolved e m' out rc)
  then show ?thesis using assms resolveMarket_Inr [of s e m' out rc] by auto
next
  case (claimed e m' rc)
  then show ?thesis using assms claimWinnings_Inr [of s e m' rc] by simp
qed (simp add: assms)

lemma run_resolved:
  "m < marketCounter s \<Longrightarrow> resolved (markets s m) \<Longrightarrow> resolved (markets (run s txs) m)"
proof (induction txs arbitrary: s)
  case Nil
  then show ?case by (simp add: run_Nil)
next
  case (Cons tx txs)
  have "m < marketCounter (transact s tx)"
    using Cons.prems(1) transact_counter_mono [of s tx] by simp
  then show ?case
    using Cons.IH [of "transact s tx"] transact_resolved [OF Cons.prems] by (simp add: run_Cons)
qed

text \<open>The two invariants of the storages reached from deployment.\<close>

lemma resolved_known_deployed: "resolved_known deployed"
  by (simp add: resolved_known_def deployed_def zero_Market_def)

lemma resolved_known_transact:
  assumes "resolved_known s"
  shows "resolved_known (transact s tx)"
proof (cases rule: transact_cases [of s tx])
  case reverted
  then show ?thesis using assms by simp
next
  case (created e q d rc)
  then show ?thesis using assms createMarket_Inr [of s e q d rc]
    by (fastforce simp: resolved_known_def)
next
  case (placed e v m' p rc)
  then show ?thesis using assms placeBet_Inr [of s e v m' p rc] by (simp add: resolved_known_def)
next
  case (resolved e m' out rc)
  then show ?thesis using assms resolveMarket_Inr [of s e m' out rc]
    by (auto simp: resolved_known_def marketExists_def)
next
  case (claimed e m' rc)
  then show ?thesis using assms claimWinnings_Inr [of s e m' rc] by (simp add: resolved_known_def)
qed

lemma resolved_known_run: "resolved_known s \<Longrightarrow> resolved_known (run s txs)"
  by (induction txs arbitrary: s) (simp_all add: run_Nil run_Cons resolved_known_transact)

lemma totals_zero_deployed: "totals_zero deployed"
  by (simp add: totals_zero_def deployed_def zero_Market_def)

lemma totals_zero_transact:
  assumes "totals_zero s"
  shows "totals_zero (transact s tx)"
proof (cases rule: transact_cases [of s tx])
  case reverted
  then show ?thesis using assms by simp
next
  case (created e q d rc)
  then show ?thesis using assms createMarket_Inr [of s e q d rc]
    by (auto simp: totals_zero_def)
next
  case (placed e v m' p rc)
  then show ?thesis using assms placeBet_Inr [of s e v m' p rc] by (simp add: totals_zero_def)
next
  case (resolved e m' out rc)
  then show ?thesis using assms resolveMarket_Inr [of s e m' out rc]
    by (simp add: totals_zero_def)
next
  case (claimed e m' rc)
  then show ?thesis using assms claimWinnings_Inr [of s e m' rc] by (simp add: totals_zero_def)
qed

lemma totals_zero_run: "totals_zero s \<Longrightarrow> totals_zero (run s txs)"
  by (induction txs arbitrary: s) (simp_all add: run_Nil run_Cons totals_zero_transact)

lemma totals_stay_zero:
  "getMarket (run deployed txs) m =
     (question (markets (run deployed txs) m), endTime (markets (run deployed txs) m), 0, 0,
      resolved (markets (run deployed txs) m), outcome (markets (run deployed txs) m),
      creator (markets (run deployed txs) m))"
  using totals_zero_run [OF totals_zero_deployed, of txs]
  by (simp add: getMarket_def totals_zero_def Let_def)

section \<open>The scenario, step by step\<close>

lemma step_create:
  "createMarket deployed (caller alice 1000) ''Will it rain?'' 86400 =
     Inr \<lparr>returned = 0, storage = st_created,
          events = [MarketCreated 0 ''Will it rain?'' 87400 alice], transfers = []\<rparr>"
  by (simp add: createMarket_def checked_add_def deployed_def caller_def st_created_def rain_def)

lemma step_bob:
  "placeBet st_created (caller bob 2000) 10000000000000000 0 True =
     Inr \<lparr>returned = (), storage = st_bob,
          events = [BetPlaced 0 bob 10000000000000000], transfers = []\<rparr>"
  by (simp add: placeBet_def marketExists_def marketActive_def MIN_BET_def MAX_BET_def
      caller_def st_created_def st_bob_def rain_def zero_Bet_def bob_bet_def)

lemma step_carol:
  "placeBet st_bob (caller carol 3000) 20000000000000000 0 False =
     Inr \<lparr>returned = (), storage = st_carol,
          events = [BetPlaced 0 carol 20000000000000000], transfers = []\<rparr>"
  by (simp add: placeBet_def marketExists_def marketActive_def MIN_BET_def MAX_BET_def
      caller_def st_bob_def st_carol_def rain_def zero_Bet_def bob_bet_def carol_bet_def bob_def carol_def)

lemma step_resolve:
  "resolveMarket st_carol (caller alice 90000) 0 True =
     Inr \<lparr>returned = (), storage = st_resolved,
          events = [MarketResolved 0 True], transfers = []\<rparr>"
  by (simp add: resolveMarket_def marketExists_def marketEnded_def onlyCreator_def
      caller_def st_carol_def st_resolved_def rain_def)

lemma step_claim:
  "claimWinnings st_resolved (caller bob 90001) 0 =
     Inr \<lparr>returned = (), storage = st_claimed, events = [], transfers = []\<rparr>"
  by (simp add: claimWinnings_def marketExists_def caller_def st_resolved_def st_claimed_def rain_def
      bob_bet_def carol_bet_def bob_def carol_def fun_upd_twist totalWinningPool_def totalLosingPool_def)

lemma step_claim_funded:
  "claimWinnings st_funded (caller bob 90001) 0 = Inr rc_funded_bob"
  by (simp add: claimWinnings_def marketExists_def caller_def st_funded_def rain_def rc_funded_bob_def
      bob_bet_def carol_bet_def bob_def carol_def MIN_BET_def checked_mul_def checked_add_def fun_upd_twist
      totalWinningPool_def totalLosingPool_def)

lemma step_claim_funded_carol:
  "claimWinnings st_funded (caller carol 90002) 0 = Inr rc_funded_carol"
  by (simp add: claimWinnings_def marketExists_def caller_def st_funded_def rain_def rc_funded_carol_def
      bob_bet_def carol_bet_def bob_def carol_def MIN_BET_def checked_mul_def checked_add_def fun_upd_twist
      totalWinningPool_def totalLosingPool_def)

lemma step_claim_funded_no:
  "claimWinnings st_funded_no (caller carol 90002) 0 = Inr rc_funded_no_carol"
  by (simp add: claimWinnings_def marketExists_def caller_def st_funded_no_def rain_def rc_funded_no_carol_def
      bob_bet_def carol_bet_def bob_def carol_def MIN_BET_def checked_mul_def checked_add_def fun_upd_twist
      totalWinningPool_def totalLosingPool_def)

section \<open>The claims\<close>

lemma run_scenario_resolved:
  "run deployed
     [(caller alice 1000, CreateMarket ''Will it rain?'' 86400),
      (caller bob 2000, PlaceBet 10000000000000000 0 True),
      (caller carol 3000, PlaceBet 20000000000000000 0 False),
      (caller alice 90000, ResolveMarket 0 True)] = st_resolved"
  by (simp add: run_Cons run_Nil step_create step_bob step_carol step_resolve settle_Inr)

subsection \<open>C2\<close>

text \<open>
  C2. For every market and every sequence of calls of the four entry points, starting
  from the deployed contract: once the \<open>resolved\<close> flag of the market is true, it is
  true after any further calls, and a further \<open>resolveMarket\<close> on that market fails,
  whoever calls it, at any time and with any outcome. So the flag goes from false to
  true at most once.
\<close>

theorem resolved_never_reverts:
  assumes "resolved (markets (run deployed txs) m)"
  shows "resolved (markets (run deployed (txs @ later)) m) \<and>
         (\<exists>err. resolveMarket (run deployed (txs @ later)) e m an_outcome = Inl err)"
proof -
  have "resolved_known (run deployed txs)"
    by (rule resolved_known_run [OF resolved_known_deployed])
  with assms have "m < marketCounter (run deployed txs)"
    by (simp add: resolved_known_def)
  then have "resolved (markets (run (run deployed txs) later) m)"
    using assms by (rule run_resolved)
  then have still: "resolved (markets (run deployed (txs @ later)) m)"
    by (simp add: run_append)
  then have "\<exists>err. resolveMarket (run deployed (txs @ later)) e m an_outcome = Inl err"
    by (simp add: resolveMarket_def)
  with still show ?thesis by simp
qed

theorem resolved_never_reverts_witness:
  "resolved (markets (run deployed
     [(caller alice 1000, CreateMarket ''Will it rain?'' 86400),
      (caller bob 2000, PlaceBet 10000000000000000 0 True),
      (caller carol 3000, PlaceBet 20000000000000000 0 False),
      (caller alice 90000, ResolveMarket 0 True)]) 0) \<and>
   resolved (markets (run deployed
     ([(caller alice 1000, CreateMarket ''Will it rain?'' 86400),
       (caller bob 2000, PlaceBet 10000000000000000 0 True),
       (caller carol 3000, PlaceBet 20000000000000000 0 False),
       (caller alice 90000, ResolveMarket 0 True)] @
      [(caller bob 90001, ClaimWinnings 0), (caller carol 90002, CreateMarket ''Again?'' 60)])) 0) \<and>
   (\<exists>err. resolveMarket (run deployed
     ([(caller alice 1000, CreateMarket ''Will it rain?'' 86400),
       (caller bob 2000, PlaceBet 10000000000000000 0 True),
       (caller carol 3000, PlaceBet 20000000000000000 0 False),
       (caller alice 90000, ResolveMarket 0 True)] @
      [(caller bob 90001, ClaimWinnings 0), (caller carol 90002, CreateMarket ''Again?'' 60)]))
      (caller alice 90003) 0 False = Inl err)"
proof -
  have h: "resolved (markets (run deployed
     [(caller alice 1000, CreateMarket ''Will it rain?'' 86400),
      (caller bob 2000, PlaceBet 10000000000000000 0 True),
      (caller carol 3000, PlaceBet 20000000000000000 0 False),
      (caller alice 90000, ResolveMarket 0 True)]) 0)"
    by (simp add: run_scenario_resolved st_resolved_def rain_def)
  from h resolved_never_reverts [OF h] show ?thesis by blast
qed

lemma run_carol: "run st_bob [(caller carol 3000, PlaceBet 20000000000000000 0 False)] = st_carol"
  by (simp add: run_Cons run_Nil step_carol settle_Inr)

subsection \<open>C3\<close>

text \<open>
  C3. The bets are stored in a mapping keyed by market and address, so a pair has one
  record at most. After an address has placed a bet on a market, its record holds the
  address itself in \<open>bettor\<close>, no longer the zero address, through any later calls;
  every further \<open>placeBet\<close> of that address on that market fails; and when the market
  is still active and the stake within the bounds, it fails at the check of the
  sentinel, with \<open>Already placed bet\<close>. The address is not the zero address, which is
  the sentinel and sends no transaction.
\<close>

theorem second_placeBet_fails:
  assumes "msg_sender e \<noteq> 0"
    and "placeBet s e msg_value marketId a_prediction = Inr rc"
    and "msg_sender e' = msg_sender e"
  shows "bettor (bets (run (storage rc) later) marketId (msg_sender e)) \<noteq> 0 \<and>
         (\<exists>err. placeBet (run (storage rc) later) e' msg_value' marketId a_prediction' = Inl err) \<and>
         (marketActive (run (storage rc) later) e' marketId \<and> MIN_BET \<le> msg_value' \<and> msg_value' \<le> MAX_BET \<longrightarrow>
            placeBet (run (storage rc) later) e' msg_value' marketId a_prediction' =
              Inl (Require ''Already placed bet''))"
proof -
  let ?a = "msg_sender e" and ?s' = "run (storage rc) later"
  from placeBet_Inr [OF assms(2)]
  have ex: "marketExists s marketId"
    and cnt: "marketCounter (storage rc) = marketCounter s"
    and stored: "bettor (bets (storage rc) marketId ?a) = ?a"
    by auto
  have kept: "bettor (bets ?s' marketId ?a) = ?a"
    using assms(1) stored by (rule run_bettor)
  have "marketCounter s \<le> marketCounter ?s'"
    using run_counter_mono [of "storage rc" later] cnt by simp
  with ex have ex': "marketExists ?s' marketId"
    by (simp add: marketExists_def)
  have sentinel: "bettor (bets ?s' marketId (msg_sender e')) \<noteq> 0"
    using kept assms(1,3) by simp
  have fails: "\<exists>err. placeBet ?s' e' msg_value' marketId a_prediction' = Inl err"
    using sentinel by (simp add: placeBet_def)
  have which: "marketActive ?s' e' marketId \<and> MIN_BET \<le> msg_value' \<and> msg_value' \<le> MAX_BET \<longrightarrow>
      placeBet ?s' e' msg_value' marketId a_prediction' = Inl (Require ''Already placed bet'')"
    using sentinel ex' by (simp add: placeBet_def)
  from kept assms(1) fails which show ?thesis by simp
qed

theorem second_placeBet_fails_witness:
  "msg_sender (caller bob 2000) \<noteq> 0 \<and>
   placeBet st_created (caller bob 2000) 10000000000000000 0 True =
     Inr \<lparr>returned = (), storage = st_bob,
          events = [BetPlaced 0 bob 10000000000000000], transfers = []\<rparr> \<and>
   bettor (bets (run st_bob [(caller carol 3000, PlaceBet 20000000000000000 0 False)]) 0 bob) \<noteq> 0 \<and>
   placeBet (run st_bob [(caller carol 3000, PlaceBet 20000000000000000 0 False)])
     (caller bob 4000) 5000000000000000 0 False = Inl (Require ''Already placed bet'')"
proof -
  have a: "msg_sender (caller bob 2000) \<noteq> 0"
    by (simp add: caller_def bob_def)
  have c: "msg_sender (caller bob 4000) = msg_sender (caller bob 2000)"
    by (simp add: caller_def)
  have d: "marketActive (run st_bob [(caller carol 3000, PlaceBet 20000000000000000 0 False)])
             (caller bob 4000) 0 \<and>
           MIN_BET \<le> 5000000000000000 \<and> (5000000000000000::uint256) \<le> MAX_BET"
    unfolding run_carol
    by (simp add: marketActive_def st_carol_def rain_def caller_def MIN_BET_def MAX_BET_def)
  from second_placeBet_fails [OF a step_bob c,
      of "[(caller carol 3000, PlaceBet 20000000000000000 0 False)]" 5000000000000000 False]
    a step_bob d
  show ?thesis by (simp add: caller_def)
qed

subsection \<open>C8\<close>

text \<open>
  C8. A \<open>placeBet\<close> whose stake is below \<open>MIN_BET\<close> or above \<open>MAX_BET\<close> fails: with
  the failure of \<open>marketExists\<close> or \<open>marketActive\<close> when the market is unknown or not
  open (the spec counts these as validation errors of \<open>placeBet\<close> too), and with
  \<open>Invalid bet amount\<close> otherwise. The call changes nothing: the storage after the
  transaction is the storage before it, so no bet record is created, the market record
  is as it was and the stake is not kept.
\<close>

theorem placeBet_out_of_range:
  assumes "msg_value < MIN_BET \<or> MAX_BET < msg_value"
  shows "(\<exists>err. placeBet s e msg_value marketId a_prediction = Inl err \<and>
            err \<in> {Modifier MarketExists, Modifier MarketActive, Require ''Invalid bet amount''}) \<and>
         (marketExists s marketId \<and> marketActive s e marketId \<longrightarrow>
            placeBet s e msg_value marketId a_prediction = Inl (Require ''Invalid bet amount'')) \<and>
         transact s (e, PlaceBet msg_value marketId a_prediction) = s"
proof -
  from assms have bad: "\<not> (MIN_BET \<le> msg_value \<and> msg_value \<le> MAX_BET)"
    by auto
  then have r: "placeBet s e msg_value marketId a_prediction =
      (if \<not> marketExists s marketId then Inl (Modifier MarketExists)
       else if \<not> marketActive s e marketId then Inl (Modifier MarketActive)
       else Inl (Require ''Invalid bet amount''))"
    by (simp add: placeBet_def)
  then show ?thesis
    by (simp add: settle_Inl)
qed

theorem placeBet_out_of_range_witness:
  "((100000000000000::uint256) < MIN_BET \<or> MAX_BET < (100000000000000::uint256)) \<and>
   marketExists st_created 0 \<and> marketActive st_created (caller bob 2000) 0 \<and>
   placeBet st_created (caller bob 2000) 100000000000000 0 True = Inl (Require ''Invalid bet amount'') \<and>
   transact st_created (caller bob 2000, PlaceBet 100000000000000 0 True) = st_created"
proof -
  have a: "(100000000000000::uint256) < MIN_BET \<or> MAX_BET < (100000000000000::uint256)"
    by (simp add: MIN_BET_def)
  have b: "marketExists st_created 0 \<and> marketActive st_created (caller bob 2000) 0"
    by (simp add: marketExists_def marketActive_def st_created_def rain_def caller_def)
  from placeBet_out_of_range [OF a, of st_created "caller bob 2000" 0 True] a b
  show ?thesis by (simp add: settle_Inl)
qed

subsection \<open>C4\<close>

text \<open>
  C4. \<open>claimWinnings\<close> fails when the market is not resolved, when the caller has no
  bet on the market (the record of the caller still holds the zero address, which is no
  caller's address), and when the bet of the caller is already claimed. A claim that
  succeeds finds the flag \<open>claimed\<close> false and leaves it true; the same claim made again
  fails, and so does every later claim of that caller on that market, whatever calls
  come in between.
\<close>

theorem claimWinnings_guards:
  "(\<not> resolved (markets s marketId) \<longrightarrow> (\<exists>err. claimWinnings s e marketId = Inl err)) \<and>
   (msg_sender e \<noteq> 0 \<and> bettor (bets s marketId (msg_sender e)) = 0 \<longrightarrow>
      (\<exists>err. claimWinnings s e marketId = Inl err)) \<and>
   (claimed (bets s marketId (msg_sender e)) \<longrightarrow> (\<exists>err. claimWinnings s e marketId = Inl err)) \<and>
   (claimWinnings s e marketId = Inr rc \<longrightarrow>
      \<not> claimed (bets s marketId (msg_sender e)) \<and>
      claimed (bets (storage rc) marketId (msg_sender e)) \<and>
      (\<exists>err. claimWinnings (storage rc) e marketId = Inl err) \<and>
      (msg_sender e \<noteq> 0 \<and> msg_sender e' = msg_sender e \<longrightarrow>
         (\<exists>err. claimWinnings (run (storage rc) later) e' marketId = Inl err)))"
proof -
  let ?a = "msg_sender e"
  have unresolved: "\<not> resolved (markets s marketId) \<longrightarrow> (\<exists>err. claimWinnings s e marketId = Inl err)"
    by (simp add: claimWinnings_def)
  have no_bet: "?a \<noteq> 0 \<and> bettor (bets s marketId ?a) = 0 \<longrightarrow>
      (\<exists>err. claimWinnings s e marketId = Inl err)"
    by (auto simp: claimWinnings_def)
  have twice: "claimed (bets s marketId ?a) \<longrightarrow> (\<exists>err. claimWinnings s e marketId = Inl err)"
    by (simp add: claimWinnings_def)
  have once: "\<not> claimed (bets s marketId ?a) \<and> claimed (bets (storage rc) marketId ?a) \<and>
      (\<exists>err. claimWinnings (storage rc) e marketId = Inl err) \<and>
      (?a \<noteq> 0 \<and> msg_sender e' = ?a \<longrightarrow>
         (\<exists>err. claimWinnings (run (storage rc) later) e' marketId = Inl err))"
    if ok: "claimWinnings s e marketId = Inr rc"
  proof -
    from claimWinnings_Inr [OF ok]
    have before: "\<not> claimed (bets s marketId ?a)"
      and mine: "bettor (bets (storage rc) marketId ?a) = ?a"
      and flag: "claimed (bets (storage rc) marketId ?a)"
      by auto
    from flag have again: "\<exists>err. claimWinnings (storage rc) e marketId = Inl err"
      by (simp add: claimWinnings_def)
    have ever: "\<exists>err. claimWinnings (run (storage rc) later) e' marketId = Inl err"
      if nz: "?a \<noteq> 0" and same: "msg_sender e' = ?a"
    proof -
      have "claimed (bets (run (storage rc) later) marketId ?a)"
        using nz mine flag by (rule run_claimed)
      with same show ?thesis
        by (simp add: claimWinnings_def)
    qed
    from before flag again ever show ?thesis by blast
  qed
  from unresolved no_bet twice once show ?thesis by blast
qed

theorem claimWinnings_guards_witness:
  "(\<exists>err. claimWinnings st_carol (caller bob 5000) 0 = Inl err) \<and>
   (\<exists>err. claimWinnings st_resolved (caller alice 90001) 0 = Inl err) \<and>
   (\<exists>err. claimWinnings st_claimed (caller bob 90002) 0 = Inl err) \<and>
   claimWinnings st_resolved (caller bob 90001) 0 =
     Inr \<lparr>returned = (), storage = st_claimed, events = [], transfers = []\<rparr> \<and>
   \<not> claimed (bets st_resolved 0 bob) \<and> claimed (bets st_claimed 0 bob) \<and>
   (\<exists>err. claimWinnings st_claimed (caller bob 90001) 0 = Inl err) \<and>
   (\<exists>err. claimWinnings (run st_claimed [(caller carol 90002, ClaimWinnings 0)])
      (caller bob 90003) 0 = Inl err)"
proof -
  have nz: "msg_sender (caller bob t) \<noteq> 0" "msg_sender (caller alice t) \<noteq> 0" for t
    by (simp_all add: caller_def bob_def alice_def)
  have h1: "\<not> resolved (markets st_carol 0)"
    by (simp add: st_carol_def rain_def)
  have h2: "bettor (bets st_resolved 0 (msg_sender (caller alice 90001))) = 0"
    by (simp add: st_resolved_def caller_def alice_def bob_def carol_def zero_Bet_def)
  have h3: "claimed (bets st_claimed 0 (msg_sender (caller bob 90002)))"
    by (simp add: st_claimed_def caller_def bob_def carol_def bob_bet_def)
  have h4: "msg_sender (caller bob 90003) = msg_sender (caller bob 90001)"
    by (simp add: caller_def)
  have s: "msg_sender (caller bob 90001) = bob"
    by (simp add: caller_def)
  from claimWinnings_guards [where e = "caller bob 5000" and s = st_carol and marketId = 0] h1
  have w1: "\<exists>err. claimWinnings st_carol (caller bob 5000) 0 = Inl err" by blast
  from claimWinnings_guards [where e = "caller alice 90001" and s = st_resolved and marketId = 0] nz(2) h2
  have w2: "\<exists>err. claimWinnings st_resolved (caller alice 90001) 0 = Inl err" by blast
  from claimWinnings_guards [where e = "caller bob 90002" and s = st_claimed and marketId = 0] h3
  have w3: "\<exists>err. claimWinnings st_claimed (caller bob 90002) 0 = Inl err" by blast
  from claimWinnings_guards [where e = "caller bob 90001" and s = st_resolved and marketId = 0
      and rc = "\<lparr>returned = (), storage = st_claimed, events = [], transfers = []\<rparr>"
      and e' = "caller bob 90003" and later = "[(caller carol 90002, ClaimWinnings 0)]"]
    step_claim h4 nz(1) [of 90001]
  have w4: "\<not> claimed (bets st_resolved 0 bob) \<and> claimed (bets st_claimed 0 bob) \<and>
      (\<exists>err. claimWinnings st_claimed (caller bob 90001) 0 = Inl err) \<and>
      (\<exists>err. claimWinnings (run st_claimed [(caller carol 90002, ClaimWinnings 0)])
         (caller bob 90003) 0 = Inl err)"
    unfolding s by simp
  from w1 w2 w3 w4 step_claim show ?thesis by blast
qed

subsection \<open>C10\<close>

text \<open>
  C10. On a resolved market, for a caller with an unclaimed bet, when the winning pool
  or the losing pool is zero: \<open>claimWinnings\<close> succeeds, sets the flag \<open>claimed\<close> of the
  bet, pays nothing (no transfer, the balance of the contract is unchanged) and emits no
  event. The same claim made again fails, and so does every later claim of that caller
  on the market, whatever calls come in between: nothing is ever paid for that bet.
\<close>

theorem claimWinnings_empty_pool:
  assumes "marketExists s marketId"
    and "resolved (markets s marketId)"
    and "bettor (bets s marketId (msg_sender e)) = msg_sender e"
    and "\<not> claimed (bets s marketId (msg_sender e))"
    and "totalWinningPool (markets s marketId) = 0 \<or> totalLosingPool (markets s marketId) = 0"
  shows "\<exists>rc. claimWinnings s e marketId = Inr rc \<and>
           claimed (bets (storage rc) marketId (msg_sender e)) \<and>
           transfers rc = [] \<and> events rc = [] \<and>
           balance (storage rc) = balance s \<and>
           (\<exists>err. claimWinnings (storage rc) e marketId = Inl err) \<and>
           (msg_sender e \<noteq> 0 \<and> msg_sender e' = msg_sender e \<longrightarrow>
              (\<exists>err. claimWinnings (run (storage rc) later) e' marketId = Inl err))"
proof -
  let ?a = "msg_sender e"
  let ?s1 = "s\<lparr>bets := (bets s)(marketId := (bets s marketId)(?a :=
               (bets s marketId ?a)\<lparr>claimed := True\<rparr>))\<rparr>"
  let ?rc = "\<lparr>returned = (), storage = ?s1, events = [], transfers = []\<rparr>"
  have ok: "claimWinnings s e marketId = Inr ?rc"
    using assms by (auto simp: claimWinnings_def Let_def)
  have mine: "bettor (bets ?s1 marketId ?a) = ?a" and flag: "claimed (bets ?s1 marketId ?a)"
    using assms(3) by simp_all
  from flag have again: "\<exists>err. claimWinnings ?s1 e marketId = Inl err"
    by (simp add: claimWinnings_def)
  have ever: "\<exists>err. claimWinnings (run ?s1 later) e' marketId = Inl err"
    if nz: "?a \<noteq> 0" and same: "msg_sender e' = ?a"
  proof -
    have "claimed (bets (run ?s1 later) marketId ?a)"
      using nz mine flag by (rule run_claimed)
    with same show ?thesis
      by (simp add: claimWinnings_def)
  qed
  from ok flag again ever show ?thesis by auto
qed

theorem claimWinnings_empty_pool_witness:
  "totalWinningPool (markets st_resolved 0) = 0 \<and>
   balance st_resolved = 30000000000000000 \<and>
   (\<exists>rc. claimWinnings st_resolved (caller bob 90001) 0 = Inr rc \<and>
      claimed (bets (storage rc) 0 bob) \<and>
      transfers rc = [] \<and> events rc = [] \<and>
      balance (storage rc) = balance st_resolved \<and>
      (\<exists>err. claimWinnings (storage rc) (caller bob 90001) 0 = Inl err) \<and>
      (\<exists>err. claimWinnings (run (storage rc) [(caller carol 90002, ClaimWinnings 0)])
         (caller bob 90003) 0 = Inl err))"
proof -
  have s: "msg_sender (caller bob 90001) = bob"
    by (simp add: caller_def)
  have h1: "bob \<noteq> 0"
    by (simp add: bob_def)
  have h2: "marketExists st_resolved 0"
    by (simp add: marketExists_def st_resolved_def)
  have h3: "resolved (markets st_resolved 0)"
    by (simp add: st_resolved_def rain_def)
  have h4: "bettor (bets st_resolved 0 (msg_sender (caller bob 90001))) = msg_sender (caller bob 90001)"
    by (simp add: st_resolved_def caller_def bob_def carol_def bob_bet_def)
  have h5: "\<not> claimed (bets st_resolved 0 (msg_sender (caller bob 90001)))"
    by (simp add: st_resolved_def caller_def bob_def carol_def bob_bet_def)
  have z: "totalWinningPool (markets st_resolved 0) = 0"
    by (simp add: totalWinningPool_def st_resolved_def rain_def)
  then have h6: "totalWinningPool (markets st_resolved 0) = 0 \<or> totalLosingPool (markets st_resolved 0) = 0"
    by simp
  have h7: "msg_sender (caller bob 90003) = bob"
    by (simp add: caller_def)
  have b: "balance st_resolved = 30000000000000000"
    by (simp add: st_resolved_def)
  from claimWinnings_empty_pool [OF h2 h3 h4 h5 h6,
      where later = "[(caller carol 90002, ClaimWinnings 0)]" and e' = "caller bob 90003"] z b h1 h7
  show ?thesis unfolding s by simp
qed

subsection \<open>C5\<close>

text \<open>
  C5, amended. \<open>resolveMarket\<close> fails for every caller other than the creator of the
  market, for every call before the end time of the market, and for every call on a
  market that is already resolved. The error is the one of the first check that fails, in
  the order of the source (\<open>marketExists\<close>, \<open>marketEnded\<close>, \<open>onlyCreator\<close>, then the
  \<open>require\<close>): the failure of \<open>marketExists\<close> on an unknown market, whoever calls and
  whenever; on an existing market the failure of \<open>marketEnded\<close> (the precondition error)
  before the end time, whoever calls; the failure of \<open>onlyCreator\<close> (the authorization
  error) for another caller once the end time is reached, resolved or not; and \<open>Market
  already resolved\<close> (the precondition error) for the creator on a resolved market. When
  all four checks pass the call succeeds, and a call that succeeds sets \<open>resolved\<close> and
  sets \<open>outcome\<close> to the argument.
\<close>

theorem resolveMarket_failures:
  "(msg_sender e \<noteq> creator (markets s marketId) \<longrightarrow>
      (\<exists>err. resolveMarket s e marketId an_outcome = Inl err)) \<and>
   (block_timestamp e < endTime (markets s marketId) \<longrightarrow>
      (\<exists>err. resolveMarket s e marketId an_outcome = Inl err)) \<and>
   (resolved (markets s marketId) \<longrightarrow>
      (\<exists>err. resolveMarket s e marketId an_outcome = Inl err)) \<and>
   (\<not> marketExists s marketId \<longrightarrow>
      resolveMarket s e marketId an_outcome = Inl (Modifier MarketExists)) \<and>
   (marketExists s marketId \<and> block_timestamp e < endTime (markets s marketId) \<longrightarrow>
      resolveMarket s e marketId an_outcome = Inl (Modifier MarketEnded)) \<and>
   (marketExists s marketId \<and> endTime (markets s marketId) \<le> block_timestamp e \<and>
    msg_sender e \<noteq> creator (markets s marketId) \<longrightarrow>
      resolveMarket s e marketId an_outcome = Inl (Modifier OnlyCreator)) \<and>
   (marketExists s marketId \<and> endTime (markets s marketId) \<le> block_timestamp e \<and>
    msg_sender e = creator (markets s marketId) \<and> resolved (markets s marketId) \<longrightarrow>
      resolveMarket s e marketId an_outcome = Inl (Require ''Market already resolved'')) \<and>
   (marketExists s marketId \<and> endTime (markets s marketId) \<le> block_timestamp e \<and>
    msg_sender e = creator (markets s marketId) \<and> \<not> resolved (markets s marketId) \<longrightarrow>
      (\<exists>rc. resolveMarket s e marketId an_outcome = Inr rc)) \<and>
   (resolveMarket s e marketId an_outcome = Inr rc \<longrightarrow>
      resolved (markets (storage rc) marketId) \<and>
      outcome (markets (storage rc) marketId) = an_outcome)"
proof -
  have early: "block_timestamp e < endTime (markets s marketId) \<Longrightarrow> \<not> marketEnded s e marketId"
    by (simp add: marketEnded_def not_le)
  have set: "resolved (markets (storage rc) marketId) \<and> outcome (markets (storage rc) marketId) = an_outcome"
    if "resolveMarket s e marketId an_outcome = Inr rc"
    using resolveMarket_Inr [OF that] by simp
  show ?thesis
    using early set
    by (auto simp: resolveMarket_def marketEnded_def onlyCreator_def)
qed

theorem resolveMarket_failures_witness:
  "resolveMarket st_carol (caller alice 90000) 5 True = Inl (Modifier MarketExists) \<and>
   resolveMarket st_carol (caller bob 90000) 0 True = Inl (Modifier OnlyCreator) \<and>
   resolveMarket st_carol (caller alice 5000) 0 True = Inl (Modifier MarketEnded) \<and>
   resolveMarket st_resolved (caller alice 90001) 0 False = Inl (Require ''Market already resolved'') \<and>
   resolveMarket st_resolved (caller bob 90001) 0 False = Inl (Modifier OnlyCreator) \<and>
   (\<exists>rc. resolveMarket st_carol (caller alice 90000) 0 True = Inr rc) \<and>
   resolveMarket st_carol (caller alice 90000) 0 True =
     Inr \<lparr>returned = (), storage = st_resolved, events = [MarketResolved 0 True], transfers = []\<rparr> \<and>
   resolved (markets st_resolved 0) \<and> outcome (markets st_resolved 0) = True"
proof -
  have ex: "marketExists st_carol 0" "marketExists st_resolved 0"
    by (simp_all add: marketExists_def st_carol_def st_resolved_def)
  have h0: "\<not> marketExists st_carol 5"
    by (simp add: marketExists_def st_carol_def)
  have h1: "endTime (markets st_carol 0) \<le> block_timestamp (caller bob 90000) \<and>
            msg_sender (caller bob 90000) \<noteq> creator (markets st_carol 0)"
    by (simp add: st_carol_def rain_def caller_def alice_def bob_def)
  have h2: "block_timestamp (caller alice 5000) < endTime (markets st_carol 0)"
    by (simp add: st_carol_def rain_def caller_def)
  have h3: "endTime (markets st_resolved 0) \<le> block_timestamp (caller alice 90001) \<and>
            msg_sender (caller alice 90001) = creator (markets st_resolved 0) \<and>
            resolved (markets st_resolved 0)"
    by (simp add: st_resolved_def rain_def caller_def)
  have h4: "endTime (markets st_resolved 0) \<le> block_timestamp (caller bob 90001) \<and>
            msg_sender (caller bob 90001) \<noteq> creator (markets st_resolved 0)"
    by (simp add: st_resolved_def rain_def caller_def alice_def bob_def)
  have h5: "endTime (markets st_carol 0) \<le> block_timestamp (caller alice 90000) \<and>
            msg_sender (caller alice 90000) = creator (markets st_carol 0) \<and>
            \<not> resolved (markets st_carol 0)"
    by (simp add: st_carol_def rain_def caller_def)
  from resolveMarket_failures [where s = st_carol and e = "caller alice 90000" and marketId = 5
      and an_outcome = True] h0
  have w0: "resolveMarket st_carol (caller alice 90000) 5 True = Inl (Modifier MarketExists)"
    by blast
  from resolveMarket_failures [where s = st_carol and e = "caller bob 90000" and marketId = 0
      and an_outcome = True] ex h1
  have w1: "resolveMarket st_carol (caller bob 90000) 0 True = Inl (Modifier OnlyCreator)"
    by blast
  from resolveMarket_failures [where s = st_carol and e = "caller alice 5000" and marketId = 0
      and an_outcome = True] ex h2
  have w2: "resolveMarket st_carol (caller alice 5000) 0 True = Inl (Modifier MarketEnded)"
    by blast
  from resolveMarket_failures [where s = st_resolved and e = "caller alice 90001" and marketId = 0
      and an_outcome = False] ex h3
  have w3: "resolveMarket st_resolved (caller alice 90001) 0 False = Inl (Require ''Market already resolved'')"
    by blast
  from resolveMarket_failures [where s = st_resolved and e = "caller bob 90001" and marketId = 0
      and an_outcome = False] ex h4
  have w4: "resolveMarket st_resolved (caller bob 90001) 0 False = Inl (Modifier OnlyCreator)"
    by blast
  from resolveMarket_failures [where s = st_carol and e = "caller alice 90000" and marketId = 0
      and an_outcome = True] ex h5
  have w6: "\<exists>rc. resolveMarket st_carol (caller alice 90000) 0 True = Inr rc"
    by blast
  from resolveMarket_failures [where s = st_carol and e = "caller alice 90000" and marketId = 0
      and an_outcome = True
      and rc = "\<lparr>returned = (), storage = st_resolved, events = [MarketResolved 0 True], transfers = []\<rparr>"]
    step_resolve
  have w5: "resolved (markets st_resolved 0) \<and> outcome (markets st_resolved 0) = True"
    by simp
  from w0 w1 w2 w3 w4 w5 w6 step_resolve show ?thesis by simp
qed

text \<open>
  C5 as stated, with the authorization error for every caller other than the creator,
  fails: bob, who did not create the market, calls before the end time and gets the
  failure of \<open>marketEnded\<close>, which runs before \<open>onlyCreator\<close>.
\<close>

theorem resolveMarket_early_stranger_counterexample:
  "msg_sender (caller bob 5000) \<noteq> creator (markets st_carol 0) \<and>
   resolveMarket st_carol (caller bob 5000) 0 True = Inl (Modifier MarketEnded) \<and>
   resolveMarket st_carol (caller bob 5000) 0 True \<noteq> Inl (Modifier OnlyCreator)"
  by (simp add: resolveMarket_def marketExists_def marketEnded_def
      st_carol_def rain_def caller_def alice_def bob_def)

subsection \<open>C1\<close>

text \<open>
  C1 says that after two addresses have bet on a market, with opposite predictions, the
  totals that \<open>getMarket\<close> returns reflect both stakes, and that the query shows neither
  prediction. The query shows no prediction, but the totals do not move: \<open>placeBet\<close>
  writes the bet record and keeps the stake, and does not write the market record. In
  the scenario alice creates the market, bob stakes 0.01 ether on yes and carol 0.02
  ether on no; both calls succeed, the contract holds 0.03 ether, and \<open>getMarket\<close>
  returns zero for both totals. (\<open>totals_stay_zero\<close> above: it returns zero for both
  after any sequence of calls, so the payout branch of \<open>claimWinnings\<close> is never taken.)
\<close>

theorem bets_leave_totals_at_zero:
  "createMarket deployed (caller alice 1000) ''Will it rain?'' 86400 =
     Inr \<lparr>returned = 0, storage = st_created,
          events = [MarketCreated 0 ''Will it rain?'' 87400 alice], transfers = []\<rparr> \<and>
   placeBet st_created (caller bob 2000) 10000000000000000 0 True =
     Inr \<lparr>returned = (), storage = st_bob,
          events = [BetPlaced 0 bob 10000000000000000], transfers = []\<rparr> \<and>
   placeBet st_bob (caller carol 3000) 20000000000000000 0 False =
     Inr \<lparr>returned = (), storage = st_carol,
          events = [BetPlaced 0 carol 20000000000000000], transfers = []\<rparr> \<and>
   balance st_carol = 30000000000000000 \<and>
   getMarket st_carol 0 = (''Will it rain?'', 87400, 0, 0, False, False, alice)"
  by (simp add: step_create step_bob step_carol getMarket_def st_carol_def rain_def)

subsection \<open>C6\<close>

text \<open>
  C6 says that \<open>createMarket\<close> fails for an empty question and for a duration that is
  not positive. The contract has no check on the two arguments: called with the empty
  question and duration zero it succeeds, stores an unresolved market whose end time is
  the current time, with zero totals and the caller as creator, and returns its
  identifier. (\<open>createMarket_fails_only_on_overflow\<close> above: it fails only when the
  counter or the end time does not fit 256 bits.)
\<close>

theorem createMarket_takes_empty_question_and_zero_duration:
  "createMarket deployed (caller alice 1000) [] 0 =
     Inr \<lparr>returned = 0,
          storage = \<lparr>markets = (\<lambda>_. zero_Market)(0 :=
                      \<lparr>question = [], endTime = 1000, totalYesBets = 0, totalNoBets = 0,
                       resolved = False, outcome = False, creator = alice\<rparr>),
                    bets = (\<lambda>_ _. zero_Bet), marketCounter = 1, balance = 0\<rparr>,
          events = [MarketCreated 0 [] 1000 alice], transfers = []\<rparr>"
  by (simp add: createMarket_def checked_add_def deployed_def caller_def)

subsection \<open>C7\<close>

text \<open>
  C7. Every \<open>claimWinnings\<close> that succeeds while both pools of the market are positive
  pays the caller, in one transfer, the amount \<open>MIN_BET + (MIN_BET * losing) div winning\<close>,
  computed on the natural numbers (a product or sum that does not fit 256 bits reverts
  the call, so nothing wraps), and announces that amount in the event. The pools are
  picked by the resolved outcome: on outcome yes the winning pool is \<open>totalYesBets\<close> and
  the losing pool \<open>totalNoBets\<close>, on outcome no the other way round. The stake in the
  formula is the constant \<open>MIN_BET\<close>, 0.001 ether, whatever the record of the caller holds
  as encrypted amount. The theorem is about any storage; the witness takes two storages
  written down with totals 0.01 ether on yes and 0.02 ether on no: on \<open>st_funded\<close>,
  resolved to yes, bob, whose record says 10 units, is paid 0.003 ether; on
  \<open>st_funded_no\<close>, resolved to no, carol, whose record says 20 units, is paid 0.0015
  ether.
\<close>

theorem claimWinnings_payout:
  assumes "claimWinnings s e marketId = Inr rc"
    and "0 < (if outcome (markets s marketId) then totalYesBets (markets s marketId)
              else totalNoBets (markets s marketId))"
    and "0 < (if outcome (markets s marketId) then totalNoBets (markets s marketId)
              else totalYesBets (markets s marketId))"
  shows "\<exists>winnings.
           transfers rc = [(msg_sender e, winnings)] \<and>
           events rc = [WinningsClaimed marketId (msg_sender e) winnings] \<and>
           unat winnings = unat MIN_BET +
             (unat MIN_BET *
                unat (if outcome (markets s marketId) then totalNoBets (markets s marketId)
                      else totalYesBets (markets s marketId))) div
               unat (if outcome (markets s marketId) then totalYesBets (markets s marketId)
                     else totalNoBets (markets s marketId)) \<and>
           unat MIN_BET = 1000000000000000 \<and>
           balance (storage rc) + unat winnings = balance s"
proof -
  have w: "0 < totalWinningPool (markets s marketId)"
    using assms(2) by (simp add: totalWinningPool_def)
  have l: "0 < totalLosingPool (markets s marketId)"
    using assms(3) by (simp add: totalLosingPool_def)
  have m: "unat MIN_BET = 1000000000000000"
    by (simp add: MIN_BET_def)
  from claimWinnings_paid [OF assms(1) w l] m show ?thesis
    unfolding totalWinningPool_def totalLosingPool_def by blast
qed

theorem claimWinnings_payout_witness:
  "outcome (markets st_funded 0) \<and>
   totalYesBets (markets st_funded 0) = 10000000000000000 \<and>
   totalNoBets (markets st_funded 0) = 20000000000000000 \<and>
   encryptedAmount (bets st_funded 0 bob) = Euint32 10 \<and>
   claimWinnings st_funded (caller bob 90001) 0 = Inr rc_funded_bob \<and>
   transfers rc_funded_bob = [(bob, 3000000000000000)] \<and>
   (\<exists>winnings.
      transfers rc_funded_bob = [(msg_sender (caller bob 90001), winnings)] \<and>
      events rc_funded_bob = [WinningsClaimed 0 (msg_sender (caller bob 90001)) winnings] \<and>
      unat winnings = unat MIN_BET +
        (unat MIN_BET * unat (totalNoBets (markets st_funded 0))) div
          unat (totalYesBets (markets st_funded 0)) \<and>
      unat MIN_BET = 1000000000000000 \<and>
      balance (storage rc_funded_bob) + unat winnings = balance st_funded) \<and>
   \<not> outcome (markets st_funded_no 0) \<and>
   totalYesBets (markets st_funded_no 0) = 10000000000000000 \<and>
   totalNoBets (markets st_funded_no 0) = 20000000000000000 \<and>
   encryptedAmount (bets st_funded_no 0 carol) = Euint32 20 \<and>
   claimWinnings st_funded_no (caller carol 90002) 0 = Inr rc_funded_no_carol \<and>
   transfers rc_funded_no_carol = [(carol, 1500000000000000)] \<and>
   (\<exists>winnings.
      transfers rc_funded_no_carol = [(msg_sender (caller carol 90002), winnings)] \<and>
      events rc_funded_no_carol = [WinningsClaimed 0 (msg_sender (caller carol 90002)) winnings] \<and>
      unat winnings = unat MIN_BET +
        (unat MIN_BET * unat (totalYesBets (markets st_funded_no 0))) div
          unat (totalNoBets (markets st_funded_no 0)) \<and>
      unat MIN_BET = 1000000000000000 \<and>
      balance (storage rc_funded_no_carol) + unat winnings = balance st_funded_no)"
proof -
  have y: "outcome (markets st_funded 0)"
    "totalYesBets (markets st_funded 0) = 10000000000000000"
    "totalNoBets (markets st_funded 0) = 20000000000000000"
    by (simp_all add: st_funded_def rain_def)
  have n: "\<not> outcome (markets st_funded_no 0)"
    "totalYesBets (markets st_funded_no 0) = 10000000000000000"
    "totalNoBets (markets st_funded_no 0) = 20000000000000000"
    by (simp_all add: st_funded_no_def rain_def)
  have y2: "0 < (if outcome (markets st_funded 0) then totalYesBets (markets st_funded 0)
                 else totalNoBets (markets st_funded 0))"
    and y3: "0 < (if outcome (markets st_funded 0) then totalNoBets (markets st_funded 0)
                 else totalYesBets (markets st_funded 0))"
    by (simp_all add: y)
  have n2: "0 < (if outcome (markets st_funded_no 0) then totalYesBets (markets st_funded_no 0)
                 else totalNoBets (markets st_funded_no 0))"
    and n3: "0 < (if outcome (markets st_funded_no 0) then totalNoBets (markets st_funded_no 0)
                 else totalYesBets (markets st_funded_no 0))"
    by (simp_all add: n)
  have stake: "encryptedAmount (bets st_funded 0 bob) = Euint32 10"
    "encryptedAmount (bets st_funded_no 0 carol) = Euint32 20"
    by (simp_all add: st_funded_def st_funded_no_def bob_def carol_def bob_bet_def carol_bet_def)
  have paid: "transfers rc_funded_bob = [(bob, 3000000000000000)]"
    "transfers rc_funded_no_carol = [(carol, 1500000000000000)]"
    by (simp_all add: rc_funded_bob_def rc_funded_no_carol_def)
  note yes = claimWinnings_payout [OF step_claim_funded y2 y3]
  note no = claimWinnings_payout [OF step_claim_funded_no n2 n3]
  have yes': "\<exists>winnings.
      transfers rc_funded_bob = [(msg_sender (caller bob 90001), winnings)] \<and>
      events rc_funded_bob = [WinningsClaimed 0 (msg_sender (caller bob 90001)) winnings] \<and>
      unat winnings = unat MIN_BET +
        (unat MIN_BET * unat (totalNoBets (markets st_funded 0))) div
          unat (totalYesBets (markets st_funded 0)) \<and>
      unat MIN_BET = 1000000000000000 \<and>
      balance (storage rc_funded_bob) + unat winnings = balance st_funded"
    using yes y(1) by simp
  have no': "\<exists>winnings.
      transfers rc_funded_no_carol = [(msg_sender (caller carol 90002), winnings)] \<and>
      events rc_funded_no_carol = [WinningsClaimed 0 (msg_sender (caller carol 90002)) winnings] \<and>
      unat winnings = unat MIN_BET +
        (unat MIN_BET * unat (totalYesBets (markets st_funded_no 0))) div
          unat (totalNoBets (markets st_funded_no 0)) \<and>
      unat MIN_BET = 1000000000000000 \<and>
      balance (storage rc_funded_no_carol) + unat winnings = balance st_funded_no"
    using no n(1) by simp
  from y n stake paid step_claim_funded step_claim_funded_no yes' no' show ?thesis
    by blast
qed

subsection \<open>C9\<close>

text \<open>
  C9. The amount paid by \<open>claimWinnings\<close> does not depend on the bet of the caller. Two
  successful claims on the same market record, by any callers and from any storages,
  pay the same amount; and replacing the encrypted amount and the encrypted prediction
  in the record of the caller changes neither the error nor the transfers nor the events
  of the call. The witness: on \<open>st_funded\<close>, resolved to yes, bob predicted yes and carol
  predicted no, and both are paid 0.003 ether.
\<close>

theorem payout_ignores_prediction:
  "(markets s1 marketId = markets s2 marketId \<and>
    claimWinnings s1 e1 marketId = Inr rc1 \<and>
    claimWinnings s2 e2 marketId = Inr rc2 \<longrightarrow>
      map snd (transfers rc1) = map snd (transfers rc2)) \<and>
   map_sum id (\<lambda>rc. (transfers rc, events rc))
     (claimWinnings
        (s\<lparr>bets := (bets s)(marketId := (bets s marketId)(msg_sender e :=
           (bets s marketId (msg_sender e))\<lparr>encryptedAmount := stake, encryptedPrediction := side\<rparr>))\<rparr>)
        e marketId)
   = map_sum id (\<lambda>rc. (transfers rc, events rc)) (claimWinnings s e marketId)"
proof (rule conjI)
  show "markets s1 marketId = markets s2 marketId \<and>
    claimWinnings s1 e1 marketId = Inr rc1 \<and>
    claimWinnings s2 e2 marketId = Inr rc2 \<longrightarrow>
      map snd (transfers rc1) = map snd (transfers rc2)"
    using claimWinnings_amounts_agree by blast
next
  show "map_sum id (\<lambda>rc. (transfers rc, events rc))
     (claimWinnings
        (s\<lparr>bets := (bets s)(marketId := (bets s marketId)(msg_sender e :=
           (bets s marketId (msg_sender e))\<lparr>encryptedAmount := stake, encryptedPrediction := side\<rparr>))\<rparr>)
        e marketId)
   = map_sum id (\<lambda>rc. (transfers rc, events rc)) (claimWinnings s e marketId)"
    by (rule claimWinnings_blind)
qed

theorem payout_ignores_prediction_witness:
  "outcome (markets st_funded 0) \<and>
   encryptedPrediction (bets st_funded 0 bob) = Ebool True \<and>
   encryptedPrediction (bets st_funded 0 carol) = Ebool False \<and>
   claimWinnings st_funded (caller bob 90001) 0 = Inr rc_funded_bob \<and>
   claimWinnings st_funded (caller carol 90002) 0 = Inr rc_funded_carol \<and>
   map snd (transfers rc_funded_bob) = map snd (transfers rc_funded_carol) \<and>
   map snd (transfers rc_funded_carol) = [3000000000000000]"
proof -
  have o: "outcome (markets st_funded 0)"
    by (simp add: st_funded_def rain_def)
  have p: "encryptedPrediction (bets st_funded 0 bob) = Ebool True"
    "encryptedPrediction (bets st_funded 0 carol) = Ebool False"
    by (simp_all add: st_funded_def bob_def carol_def bob_bet_def carol_bet_def)
  have h1: "claimWinnings st_funded (caller bob 90001) 0 = Inr rc_funded_bob"
    by (rule step_claim_funded)
  have h2: "claimWinnings st_funded (caller carol 90002) 0 = Inr rc_funded_carol"
    by (rule step_claim_funded_carol)
  have v: "map snd (transfers rc_funded_carol) = [3000000000000000]"
    by (simp add: rc_funded_carol_def)
  from payout_ignores_prediction [where ?s1.0 = st_funded and ?s2.0 = st_funded and marketId = 0
      and ?e1.0 = "caller bob 90001" and ?e2.0 = "caller carol 90002"
      and ?rc1.0 = rc_funded_bob and ?rc2.0 = rc_funded_carol] h1 h2
  have "map snd (transfers rc_funded_bob) = map snd (transfers rc_funded_carol)"
    by blast
  with o p h1 h2 v show ?thesis by simp
qed

end
